theory Spec2Isabelle
  imports
    Main
    "HOL-Library.Char_ord"
    "HOL-Library.List_Lexorder"
    "HOL-Library.Product_Lexorder"
    "HOL-Library.Multiset"
begin

section \<open>Automatic spawner generator for EggWars maps: the embedding\<close>

text \<open>
  The script \<^verbatim>\<open>eggwars_spawners_filters_gen.py\<close> reads a map document, collects the
  regions whose \<^verbatim>\<open>id\<close> follows \<^verbatim>\<open>team-COLOR-generator-MATERIAL-NUMBER\<close> and prints
  variable and spawner declarations for them.

  Python strings are modelled as \<^typ>\<open>string\<close>; a character stands for a code point
  below 256, where the only decimal digits are \<^verbatim>\<open>0\<close> to \<^verbatim>\<open>9\<close>. Python integers are
  \<^typ>\<open>int\<close>. The outcome of \<^verbatim>\<open>ET.parse\<close> is the input of the model: either the message
  of the exception it raised, or the root element of the parsed tree.
\<close>

subsection \<open>Characters and the decimal form of integers\<close>

abbreviation NL :: char where
  "NL \<equiv> CHR 0x0A"

abbreviation TAB :: char where
  "TAB \<equiv> CHR 0x09"

definition is_digit :: "char \<Rightarrow> bool" where
  "is_digit c = (c \<in> set ''0123456789'')"

definition digit_char :: "nat \<Rightarrow> char" where
  "digit_char d = ''0123456789'' ! d"

text \<open>\<^verbatim>\<open>str(n)\<close> for a natural number: the digit is only looked up below ten.\<close>

fun str_nat :: "nat \<Rightarrow> string" where
  "str_nat n = (if n < 10 then [digit_char n] else str_nat (n div 10) @ [digit_char (n mod 10)])"

declare str_nat.simps [simp del]

text \<open>What an f-string writes for an integer.\<close>

definition str_int :: "int \<Rightarrow> string" where
  "str_int i = (if i < 0 then CHR ''-'' # str_nat (nat (- i)) else str_nat (nat i))"

subsection \<open>The static timing table\<close>

record nivel =
  lvl :: int
  delay :: string

definition CONFIG_GENERADORES :: "string \<rightharpoonup> nivel list" where
  "CONFIG_GENERADORES = map_of
     [(''iron'',
        [\<lparr>lvl = 1, delay = ''1s''\<rparr>,
         \<lparr>lvl = 2, delay = ''0.75s''\<rparr>,
         \<lparr>lvl = 3, delay = ''0.5s''\<rparr>,
         \<lparr>lvl = 4, delay = ''0.25s''\<rparr>]),
      (''gold'',
        [\<lparr>lvl = 1, delay = ''5s''\<rparr>,
         \<lparr>lvl = 2, delay = ''3.5s''\<rparr>,
         \<lparr>lvl = 3, delay = ''2s''\<rparr>,
         \<lparr>lvl = 4, delay = ''1s''\<rparr>]),
      (''diamond'',
        [\<lparr>lvl = 1, delay = ''10s''\<rparr>,
         \<lparr>lvl = 2, delay = ''5s''\<rparr>,
         \<lparr>lvl = 3, delay = ''2.5s''\<rparr>])]"

definition max_levels :: int where
  "max_levels = 4"

subsection \<open>The parsed document\<close>

text \<open>
  An element of the tree: its tag, its attribute dictionary and its children in document
  order. \<^verbatim>\<open>root.iter()\<close> lists the root and all its descendants in document order.
\<close>

datatype element = Element (tag: string) (attrib: "string \<rightharpoonup> string") (children: "element list")

fun iter :: "element \<Rightarrow> element list" where
  "iter (Element t a cs) = Element t a cs # concat (map iter cs)"

subsection \<open>The pattern \<^verbatim>\<open>^team-(.+)-generator-(.+)-(\d+)$\<close>\<close>

text \<open>
  The pattern is run the way Python's backtracking matcher runs it, from the start of
  the string. A matcher takes the rest of the string and answers with the captures
  made from there on, or \<open>None\<close>.

  A literal consumes exactly its own characters.
\<close>

definition lit :: "string \<Rightarrow> (string \<Rightarrow> 'a option) \<Rightarrow> string \<Rightarrow> 'a option" where
  "lit p k s = (if take (length p) s = p then k (drop (length p) s) else None)"

text \<open>
  A greedy capturing group \<^verbatim>\<open>(C+)\<close>: the longest run first, then one character less
  each time the rest of the pattern fails, down to one character.
\<close>

fun backtrack :: "(string \<Rightarrow> 'a option) \<Rightarrow> string \<Rightarrow> nat \<Rightarrow> (string \<times> 'a) option" where
  "backtrack k s 0 = None"
| "backtrack k s (Suc n) =
     (case k (drop (Suc n) s) of
        Some r \<Rightarrow> Some (take (Suc n) s, r)
      | None \<Rightarrow> backtrack k s n)"

definition plus_group :: "(char \<Rightarrow> bool) \<Rightarrow> (string \<Rightarrow> 'a option) \<Rightarrow> string \<Rightarrow> (string \<times> 'a) option" where
  "plus_group C k s = backtrack k s (length (takeWhile C s))"

text \<open>\<^verbatim>\<open>.\<close> is any character but the line feed; \<^verbatim>\<open>\d\<close> is a decimal digit.\<close>

definition dot :: "char \<Rightarrow> bool" where
  "dot c = (c \<noteq> NL)"

text \<open>\<^verbatim>\<open>$\<close> holds at the end of the string and just before a line feed that ends it.\<close>

definition at_end :: "string \<Rightarrow> unit option" where
  "at_end s = (if s = [] \<or> s = [NL] then Some () else None)"

definition patron_match :: "string \<Rightarrow> (string \<times> string \<times> string) option" where
  "patron_match s =
     (case lit ''team-'' (plus_group dot (lit ''-generator-'' (plus_group dot
             (lit ''-'' (plus_group is_digit at_end))))) s of
        None \<Rightarrow> None
      | Some (g1, g2, g3, _) \<Rightarrow> Some (g1, g2, g3))"

subsection \<open>Searching the regions\<close>

record region =
  full_id :: string
  color :: string
  material :: string
  num :: string
  team_id :: string

text \<open>The body of the loop over the elements: the list found so far is extended or kept.\<close>

definition visitar :: "element \<Rightarrow> region list \<Rightarrow> region list" where
  "visitar elem generadores_encontrados =
     (case attrib elem ''id'' of
        None \<Rightarrow> generadores_encontrados
      | Some region_id \<Rightarrow>
          (case patron_match region_id of
             None \<Rightarrow> generadores_encontrados
           | Some (c, m, numero) \<Rightarrow>
               if m \<in> dom CONFIG_GENERADORES
               then generadores_encontrados @
                      [\<lparr>full_id = region_id, color = c, material = m, num = numero,
                        team_id = ''team-'' @ c\<rparr>]
               else generadores_encontrados))"

definition buscar_regiones :: "element \<Rightarrow> region list" where
  "buscar_regiones root = fold visitar (iter root) []"

text \<open>The sort key; Python's sort is stable, and so is \<^const>\<open>sort_key\<close>.\<close>

definition clave :: "region \<Rightarrow> string \<times> string \<times> string" where
  "clave x = (color x, material x, num x)"

definition ordenar :: "region list \<Rightarrow> region list" where
  "ordenar generadores_encontrados = sort_key clave generadores_encontrados"

subsection \<open>Printing, and exceptions\<close>

text \<open>
  Each call of \<^verbatim>\<open>print\<close> is one value of \<open>line\<close>, holding what the call interpolates
  into its text; \<open>render\<close> gives the text itself.
\<close>

datatype line =
    Texto string
  | SinRegiones
  | ErrorLine string
  | Variable (filter_id: string) (var: string) (team: string) (valor: int)
  | SpawnerOpen (spawn_region: string) (spawn_delay: string) (filter_ref: string)
  | Item (item_mat: string)
  | SpawnerClose

definition render :: "line \<Rightarrow> string" where
  \<open>render l =
     (case l of
        Texto s \<Rightarrow> s
      | SinRegiones \<Rightarrow> ''No se encontraron regiones con el formato 'team-*-generator-*-*' en el mapa.''
      | ErrorLine e \<Rightarrow> ''Error procesando el archivo: '' @ e
      | Variable f v t i \<Rightarrow>
          TAB # ''<variable id="'' @ f @ ''" var="'' @ v @ ''" team="'' @ t @ ''">'' @ str_int i @ ''</variable>''
      | SpawnerOpen r d f \<Rightarrow>
          TAB # ''<spawner spawn-region="'' @ r @ ''" delay="'' @ d @ ''" filter="'' @ f @ ''">''
      | Item m \<Rightarrow> TAB # ''    <item amount="1" material="'' @ m @ ''"/>''
      | SpawnerClose \<Rightarrow> TAB # ''</spawner>'')\<close>

text \<open>The text written to standard output: every call ends its text with a line feed.\<close>

definition stdout_text :: "line list \<Rightarrow> string" where
  "stdout_text ls = concat (map (\<lambda>l. render l @ [NL]) ls)"

text \<open>
  A piece of the program yields the lines it printed and, when it raised, the message
  of the exception. Nothing runs after an exception.
\<close>

type_synonym salida = "line list \<times> string option"

definition imprimir :: "line list \<Rightarrow> salida" where
  "imprimir ls = (ls, None)"

definition lanzar :: "string \<Rightarrow> salida" where
  "lanzar e = ([], Some e)"

fun luego :: "salida \<Rightarrow> salida \<Rightarrow> salida" where
  "luego (out, Some e) rest = (out, Some e)"
| "luego (out, None) (out', r) = (out @ out', r)"

fun for_each :: "('a \<Rightarrow> salida) \<Rightarrow> 'a list \<Rightarrow> salida" where
  "for_each body [] = ([], None)"
| "for_each body (x # xs) = luego (body x) (for_each body xs)"

text \<open>\<^verbatim>\<open>len(config)\<close>, where \<^verbatim>\<open>config\<close> comes from \<^verbatim>\<open>dict.get\<close> and may be \<^verbatim>\<open>None\<close>.\<close>

definition py_len :: "'a list option \<Rightarrow> string + int" where
  "py_len config =
     (case config of
        None \<Rightarrow> Inl ''object of type 'NoneType' has no len()''
      | Some xs \<Rightarrow> Inr (int (length xs)))"

subsection \<open>Generating the filters\<close>

definition var_name :: "region \<Rightarrow> string" where
  "var_name gen = ''team_generator_'' @ material gen @ ''_'' @ num gen"

definition filtro_lv0 :: "region \<Rightarrow> salida" where
  "filtro_lv0 gen =
     (let filter_id = full_id gen @ ''-lv0''
      in imprimir [Variable filter_id (var_name gen) (team_id gen) 0])"

definition filtro_nivel :: "int \<Rightarrow> region \<Rightarrow> salida" where
  "filtro_nivel i gen =
     (let config = CONFIG_GENERADORES (material gen)
      in case py_len config of
           Inl e \<Rightarrow> lanzar e
         | Inr n \<Rightarrow>
             if i \<le> n
             then (let filter_id = full_id gen @ ''-lv'' @ str_int i
                   in imprimir [Variable filter_id (var_name gen) (team_id gen) i])
             else imprimir [])"

definition generar_filtros :: "region list \<Rightarrow> salida" where
  "generar_filtros gens =
     luego (imprimir [Texto [NL, TAB]])
    (luego (for_each filtro_lv0 gens)
           (for_each (\<lambda>i. luego (imprimir [Texto [NL, TAB]]) (for_each (filtro_nivel i) gens))
              [1..max_levels]))"

subsection \<open>Generating the spawners\<close>

definition item_material :: "string \<Rightarrow> string" where
  "item_material m =
     (if m = ''gold'' then ''gold ingot''
      else if m = ''diamond'' then ''diamond''
      else if m = ''emerald'' then ''emerald''
      else ''iron ingot'')"

definition spawner_nivel :: "string \<Rightarrow> string \<Rightarrow> nivel \<Rightarrow> salida" where
  "spawner_nivel fid item nivel_data =
     (let filter_ref = fid @ ''-lv'' @ str_int (lvl nivel_data)
      in imprimir [SpawnerOpen fid (delay nivel_data) filter_ref, Item item, SpawnerClose])"

definition spawner_gen :: "region \<Rightarrow> salida" where
  "spawner_gen gen =
     (let config_niveles = CONFIG_GENERADORES (material gen);
          item = item_material (material gen)
      in case config_niveles of
           None \<Rightarrow> lanzar '''NoneType' object is not iterable''
         | Some niveles \<Rightarrow> for_each (spawner_nivel (full_id gen) item) niveles)"

definition generar_spawners :: "region list \<Rightarrow> salida" where
  "generar_spawners gens = for_each spawner_gen gens"

subsection \<open>The whole run\<close>

text \<open>The body of the \<^verbatim>\<open>try\<close> block.\<close>

definition procesar :: "string + element \<Rightarrow> salida" where
  "procesar parsed =
     (case parsed of
        Inl e \<Rightarrow> lanzar e
      | Inr root \<Rightarrow>
          (let generadores_encontrados = buscar_regiones root
           in if generadores_encontrados = [] then imprimir [SinRegiones]
              else (let gens = ordenar generadores_encontrados
                    in luego (imprimir [Texto [NL], Texto [], Texto []])
                      (luego (generar_filtros gens)
                      (luego (imprimir [Texto [NL, NL], Texto []])
                             (generar_spawners gens))))))"

text \<open>The \<^verbatim>\<open>except\<close> clause prints the message of whatever was raised.\<close>

definition generar_xml_eggwars :: "string + element \<Rightarrow> line list" where
  "generar_xml_eggwars parsed =
     (case procesar parsed of
        (out, None) \<Rightarrow> out
      | (out, Some e) \<Rightarrow> out @ [ErrorLine e])"

subsection \<open>Vocabulary of the properties\<close>

text \<open>
  The strings the pattern accepts, with their three parts: the identifier is
  \<^verbatim>\<open>team-c-generator-m-n\<close>, possibly followed by one final line feed, where \<open>c\<close> and \<open>m\<close>
  are non-empty and free of line feeds and \<open>n\<close> is a non-empty string of digits.
\<close>

definition forma :: "string \<Rightarrow> string \<Rightarrow> string \<Rightarrow> string \<Rightarrow> bool" where
  "forma s c m n \<longleftrightarrow>
     (s = ''team-'' @ c @ ''-generator-'' @ m @ ''-'' @ n \<or>
      s = ''team-'' @ c @ ''-generator-'' @ m @ ''-'' @ n @ [NL]) \<and>
     c \<noteq> [] \<and> list_all dot c \<and> m \<noteq> [] \<and> list_all dot m \<and> n \<noteq> [] \<and> list_all is_digit n"

text \<open>
  The format that the script's documentation requires of an identifier, read on the whole
  value: \<^verbatim>\<open>team-c-generator-m-n\<close> with non-empty \<open>c\<close> and \<open>m\<close> and a non-empty string \<open>n\<close> of
  the digits 0 to 9.
\<close>

definition gramatica :: "string \<Rightarrow> string \<Rightarrow> string \<Rightarrow> string \<Rightarrow> bool" where
  "gramatica s c m n \<longleftrightarrow>
     s = ''team-'' @ c @ ''-generator-'' @ m @ ''-'' @ n \<and>
     c \<noteq> [] \<and> m \<noteq> [] \<and> n \<noteq> [] \<and> list_all (\<lambda>d. d \<in> set ''0123456789'') n"

text \<open>An identifier is accepted when the pattern matches it and its material is configured.\<close>

definition aceptado :: "string \<Rightarrow> bool" where
  "aceptado rid =
     (case patron_match rid of
        None \<Rightarrow> False
      | Some (c, m, n) \<Rightarrow> m \<in> dom CONFIG_GENERADORES)"

text \<open>The \<^verbatim>\<open>id\<close> attributes of the document, one per element that has one, in document order.\<close>

definition ids :: "element \<Rightarrow> string list" where
  "ids root = List.map_filter (\<lambda>e. attrib e ''id'') (iter root)"

text \<open>The timing entries of a region's material.\<close>

definition config_de :: "region \<Rightarrow> nivel list" where
  "config_de gen = (case CONFIG_GENERADORES (material gen) of None \<Rightarrow> [] | Some niveles \<Rightarrow> niveles)"

text \<open>The variable declaration of a region at a level.\<close>

definition variable_de :: "region \<Rightarrow> int \<Rightarrow> line" where
  "variable_de gen k =
     Variable (full_id gen @ ''-lv'' @ str_int k)
       (''team_generator_'' @ material gen @ ''_'' @ num gen) (team_id gen) k"

text \<open>The spawn declaration of a region for one timing entry: three printed lines.\<close>

definition spawner_de :: "region \<Rightarrow> nivel \<Rightarrow> line list" where
  "spawner_de gen nd =
     [SpawnerOpen (full_id gen) (delay nd) (full_id gen @ ''-lv'' @ str_int (lvl nd)),
      Item (item_material (material gen)),
      SpawnerClose]"

fun es_variable :: "line \<Rightarrow> bool" where
  "es_variable (Variable f v t i) = True"
| "es_variable l = False"

fun es_spawner :: "line \<Rightarrow> bool" where
  "es_spawner (SpawnerOpen r d f) = True"
| "es_spawner l = False"

fun es_item :: "line \<Rightarrow> bool" where
  "es_item (Item m) = True"
| "es_item l = False"

fun es_error :: "line \<Rightarrow> bool" where
  "es_error (ErrorLine e) = True"
| "es_error l = False"

text \<open>A declaration is any line of a variable or of a spawner.\<close>

fun es_declaracion :: "line \<Rightarrow> bool" where
  "es_declaracion (Variable f v t i) = True"
| "es_declaracion (SpawnerOpen r d f) = True"
| "es_declaracion (Item m) = True"
| "es_declaracion SpawnerClose = True"
| "es_declaracion l = False"

text \<open>The variable declarations that the regions of a list have at one level, in list order.\<close>

definition bloque :: "region list \<Rightarrow> int \<Rightarrow> line list" where
  "bloque gens i = concat (map (\<lambda>g. if i \<le> int (length (config_de g)) then [variable_de g i] else []) gens)"

text \<open>The sorted list that both passes go through.\<close>

definition generadores :: "element \<Rightarrow> region list" where
  "generadores root = ordenar (buscar_regiones root)"

subsection \<open>Example documents\<close>

definition mapa_ejemplo :: element where
  "mapa_ejemplo = Element ''map'' Map.empty
     [Element ''regions'' Map.empty
        [Element ''cuboid'' [''id'' \<mapsto> ''team-red-generator-iron-1''] [],
         Element ''cuboid'' [''id'' \<mapsto> ''team-blue-generator-diamond-2''] [],
         Element ''cuboid'' [''id'' \<mapsto> ''team-blue-generator-emerald-1''] [],
         Element ''cuboid'' [''id'' \<mapsto> ''spawn-red''] []]]"


definition mapa_duplicado :: element where
  "mapa_duplicado = Element ''map'' Map.empty
     [Element ''cuboid'' [''id'' \<mapsto> ''team-red-generator-iron-1''] [],
      Element ''cylinder'' [''id'' \<mapsto> ''team-red-generator-iron-1''] []]"

definition mapa_salto_de_linea :: element where
  "mapa_salto_de_linea = Element ''map'' Map.empty
     [Element ''cuboid'' [''id'' \<mapsto> ''team-red-generator-iron-1'' @ [NL]] []]"

definition regiones_ejemplo :: "region list" where
  "regiones_ejemplo =
     [\<lparr>full_id = ''team-red-generator-iron-2'', color = ''red'', material = ''iron'', num = ''2'',
        team_id = ''team-red''\<rparr>,
      \<lparr>full_id = ''team-red-generator-iron-10'', color = ''red'', material = ''iron'', num = ''10'',
        team_id = ''team-red''\<rparr>,
      \<lparr>full_id = ''team-blue-generator-gold-1'', color = ''blue'', material = ''gold'', num = ''1'',
        team_id = ''team-blue''\<rparr>]"

section \<open>Properties\<close>

subsection \<open>The backtracking matcher\<close>

lemma backtrack_Some:
  "backtrack k s n = Some (p, r) \<Longrightarrow>
     \<exists>j. 0 < j \<and> j \<le> n \<and> p = take j s \<and> k (drop j s) = Some r \<and>
         (\<forall>i. j < i \<and> i \<le> n \<longrightarrow> k (drop i s) = None)"
proof (induction n)
  case 0
  then show ?case by simp
next
  case (Suc n)
  show ?case
  proof (cases "k (drop (Suc n) s)")
    case None
    with Suc.prems have "backtrack k s n = Some (p, r)" by simp
    from Suc.IH [OF this] obtain j where j: "0 < j" "j \<le> n" "p = take j s" "k (drop j s) = Some r"
      "\<forall>i. j < i \<and> i \<le> n \<longrightarrow> k (drop i s) = None" by blast
    have "\<forall>i. j < i \<and> i \<le> Suc n \<longrightarrow> k (drop i s) = None"
      using j(5) None by (auto simp: le_Suc_eq)
    with j show ?thesis by (intro exI [of _ j]) simp
  next
    case (Some a)
    with Suc.prems have "p = take (Suc n) s" "a = r" by simp_all
    with Some show ?thesis by (intro exI [of _ "Suc n"]) auto
  qed
qed

lemma backtrack_None:
  "backtrack k s n = None \<longleftrightarrow> (\<forall>j. 0 < j \<and> j \<le> n \<longrightarrow> k (drop j s) = None)"
proof (induction n)
  case 0
  show ?case by simp
next
  case (Suc n)
  show ?case
  proof (cases "k (drop (Suc n) s)")
    case None
    then show ?thesis using Suc.IH by (auto simp: le_Suc_eq)
  next
    case (Some a)
    then show ?thesis by auto
  qed
qed

lemma length_takeWhile_prefix:
  "list_all P xs \<Longrightarrow> length xs \<le> length (takeWhile P (xs @ ys))"
  by (induction xs) simp_all

lemma take_takeWhile_all:
  "j \<le> length (takeWhile P s) \<Longrightarrow> list_all P (take j s)"
proof -
  assume "j \<le> length (takeWhile P s)"
  then have "take j s = take j (takeWhile P s)"
    by (metis takeWhile_dropWhile_id take_append append_Nil2 diff_is_0_eq take_0)
  then show ?thesis
    by (metis list_all_iff in_set_takeD set_takeWhileD)
qed

lemma plus_group_Some:
  assumes "plus_group C k s = Some (p, r)"
  shows "p \<noteq> [] \<and> list_all C p \<and> s = p @ drop (length p) s \<and> k (drop (length p) s) = Some r \<and>
         (\<forall>p'. list_all C p' \<and> length p < length p' \<and> take (length p') s = p' \<longrightarrow> k (drop (length p') s) = None)"
proof -
  let ?n = "length (takeWhile C s)"
  from assms have "backtrack k s ?n = Some (p, r)" by (simp add: plus_group_def)
  from backtrack_Some [OF this] obtain j where j: "0 < j" "j \<le> ?n" "p = take j s"
    "k (drop j s) = Some r" "\<forall>i. j < i \<and> i \<le> ?n \<longrightarrow> k (drop i s) = None" by blast
  have "?n \<le> length s" by (rule length_takeWhile_le)
  with j have len: "length p = j" by simp
  have "list_all C p" using j(2,3) take_takeWhile_all by blast
  moreover have "p \<noteq> []" using len j(1) by auto
  moreover have "s = p @ drop (length p) s" using j(3) len by simp
  moreover have "k (drop (length p) s) = Some r" using j(4) len by simp
  moreover have "\<forall>p'. list_all C p' \<and> length p < length p' \<and> take (length p') s = p' \<longrightarrow> k (drop (length p') s) = None"
  proof (intro allI impI)
    fix p' assume h: "list_all C p' \<and> length p < length p' \<and> take (length p') s = p'"
    then have "s = p' @ drop (length p') s" by (metis append_take_drop_id)
    then have "length p' \<le> ?n" using h length_takeWhile_prefix by metis
    with h len j(5) show "k (drop (length p') s) = None" by simp
  qed
  ultimately show ?thesis by blast
qed

lemma lit_append [simp]: "lit p k (p @ t) = k t"
  by (simp add: lit_def)

lemma lit_Some: "lit p k s = Some r \<Longrightarrow> s = p @ drop (length p) s \<and> k (drop (length p) s) = Some r"
  by (auto simp: lit_def split: if_splits) (metis append_take_drop_id)

lemma plus_group_found:
  assumes "list_all C p" "p \<noteq> []" "k t \<noteq> None"
  shows "\<exists>p' r. plus_group C k (p @ t) = Some (p', r) \<and> length p \<le> length p'"
proof (cases "plus_group C k (p @ t)")
  case None
  have "length p \<le> length (takeWhile C (p @ t))" using assms(1) by (rule length_takeWhile_prefix)
  moreover have "0 < length p" using assms(2) by simp
  moreover have "\<forall>j. 0 < j \<and> j \<le> length (takeWhile C (p @ t)) \<longrightarrow> k (drop j (p @ t)) = None"
    using None unfolding plus_group_def backtrack_None .
  ultimately have "k (drop (length p) (p @ t)) = None" by blast
  with assms(3) show ?thesis by simp
next
  case (Some a)
  obtain p' r where a: "a = (p', r)" by (cases a)
  have "length p \<le> length p'"
  proof (rule ccontr)
    assume "\<not> length p \<le> length p'"
    then have lt: "length p' < length p" by simp
    have "take (length p) (p @ t) = p" by simp
    with plus_group_Some [OF Some [unfolded a]] assms(1) lt
    have "k (drop (length p) (p @ t)) = None" by metis
    with assms(3) show False by simp
  qed
  with Some a show ?thesis by simp
qed

lemma digits_tail:
  assumes "list_all is_digit n" "n \<noteq> []" "t = [] \<or> t = [NL]"
  shows "plus_group is_digit at_end (n @ t) = Some (n, ())"
proof -
  have "at_end t \<noteq> None" using assms(3) by (auto simp: at_end_def)
  from plus_group_found [of is_digit n at_end t, OF assms(1,2) this] obtain p' r where
    p': "plus_group is_digit at_end (n @ t) = Some (p', r)" "length n \<le> length p'" by blast
  from plus_group_Some [OF p'(1)] have a: "list_all is_digit p'" "n @ t = p' @ drop (length p') (n @ t)" by auto
  have "\<not> is_digit NL" by (simp add: is_digit_def)
  have "length p' \<le> length n"
  proof (rule ccontr)
    assume "\<not> length p' \<le> length n"
    then have "length n < length p'" by simp
    moreover have "length p' \<le> length (n @ t)" using a(2) by (metis length_append le_add1)
    ultimately have t: "t = [NL]" "length p' = Suc (length n)" using assms(3) by auto
    then have "p' = n @ [NL]" using a(2) by (metis append_eq_append_conv length_append_singleton append_Nil2 append_assoc nat_less_le length_append t(1) length_drop diff_self_eq_0 length_0_conv)
    with a(1) \<open>\<not> is_digit NL\<close> show False by simp
  qed
  with p'(2) have "length p' = length n" by simp
  with a(2) have "p' = n" by (metis append_eq_append_conv)
  with p'(1) show ?thesis by simp
qed

lemma patron_match_forma:
  assumes "patron_match s = Some (c, m, n)"
  shows "forma s c m n"
proof -
  let ?k3 = "plus_group is_digit at_end"
  let ?k2 = "plus_group dot (lit ''-'' ?k3)"
  let ?k1 = "plus_group dot (lit ''-generator-'' ?k2)"
  from assms obtain u where a0: "lit ''team-'' ?k1 s = Some (c, m, n, u)"
    by (auto simp: patron_match_def split: option.splits)
  define r0 where "r0 = drop (length ''team-'') s"
  from lit_Some [OF a0] have s0: "s = ''team-'' @ r0" and a1: "?k1 r0 = Some (c, m, n, u)"
    unfolding r0_def by blast+
  define r1 where "r1 = drop (length c) r0"
  from plus_group_Some [OF a1] have c: "c \<noteq> []" "list_all dot c" and s1: "r0 = c @ r1"
    and a2: "lit ''-generator-'' ?k2 r1 = Some (m, n, u)"
    unfolding r1_def by blast+
  define r2 where "r2 = drop (length ''-generator-'') r1"
  from lit_Some [OF a2] have s2: "r1 = ''-generator-'' @ r2" and a3: "?k2 r2 = Some (m, n, u)"
    unfolding r2_def by blast+
  define r3 where "r3 = drop (length m) r2"
  from plus_group_Some [OF a3] have m: "m \<noteq> []" "list_all dot m" and s3: "r2 = m @ r3"
    and a4: "lit ''-'' ?k3 r3 = Some (n, u)"
    unfolding r3_def by blast+
  define r4 where "r4 = drop (length ''-'') r3"
  from lit_Some [OF a4] have s4: "r3 = ''-'' @ r4" and a5: "?k3 r4 = Some (n, u)"
    unfolding r4_def by blast+
  define r5 where "r5 = drop (length n) r4"
  from plus_group_Some [OF a5] have n: "n \<noteq> []" "list_all is_digit n" and s5: "r4 = n @ r5"
    and a6: "at_end r5 = Some u"
    unfolding r5_def by blast+
  from a6 have "r5 = [] \<or> r5 = [NL]" by (auto simp: at_end_def split: if_splits)
  moreover have "s = ''team-'' @ c @ ''-generator-'' @ m @ ''-'' @ n @ r5"
    by (subst s0, subst s1, subst s2, subst s3, subst s4, subst s5) simp
  ultimately show ?thesis using c m n unfolding forma_def by auto
qed

lemma forma_patron_match:
  assumes "forma s c m n"
  shows "\<exists>c' m' n'. patron_match s = Some (c', m', n') \<and> length c \<le> length c'"
proof -
  let ?k3 = "plus_group is_digit at_end"
  let ?k2 = "plus_group dot (lit ''-'' ?k3)"
  let ?k1 = "plus_group dot (lit ''-generator-'' ?k2)"
  from assms obtain t where t: "t = [] \<or> t = [NL]"
    and s: "s = ''team-'' @ c @ ''-generator-'' @ m @ ''-'' @ n @ t"
    and c: "list_all dot c" "c \<noteq> []" and m: "list_all dot m" "m \<noteq> []"
    and n: "list_all is_digit n" "n \<noteq> []"
    unfolding forma_def by auto
  have "?k3 (n @ t) = Some (n, ())" using n t by (rule digits_tail)
  then have "lit ''-'' ?k3 (''-'' @ n @ t) \<noteq> None" by (simp only: lit_append) simp
  from plus_group_found [of dot m "lit ''-'' ?k3" "''-'' @ n @ t", OF m this]
  obtain m' r where "?k2 (m @ ''-'' @ n @ t) = Some (m', r)" by blast
  then have "lit ''-generator-'' ?k2 (''-generator-'' @ m @ ''-'' @ n @ t) \<noteq> None"
    by (simp only: lit_append) simp
  from plus_group_found [of dot c "lit ''-generator-'' ?k2" "''-generator-'' @ m @ ''-'' @ n @ t", OF c this]
  obtain c' r' where c': "?k1 (c @ ''-generator-'' @ m @ ''-'' @ n @ t) = Some (c', r')"
    "length c \<le> length c'" by blast
  have "lit ''team-'' ?k1 s = Some (c', r')"
    unfolding s by (simp only: lit_append c')
  then have "patron_match s = Some (c', fst r', fst (snd r'))"
    by (cases r') (auto simp: patron_match_def)
  with c'(2) show ?thesis by blast
qed

lemma patron_match_longest:
  assumes "patron_match s = Some (c, m, n)" "forma s c' m' n'"
  shows "length c' \<le> length c"
  using forma_patron_match [OF assms(2)] assms(1) by auto

lemma patron_match_None_iff:
  "patron_match s = None \<longleftrightarrow> (\<forall>c m n. \<not> forma s c m n)"
proof
  assume "patron_match s = None"
  then show "\<forall>c m n. \<not> forma s c m n"
    using forma_patron_match by fastforce
next
  assume a: "\<forall>c m n. \<not> forma s c m n"
  show "patron_match s = None"
  proof (cases "patron_match s")
    case None
    then show ?thesis .
  next
    case (Some a')
    obtain c m n where "a' = (c, m, n)" by (cases a')
    with Some patron_match_forma a show ?thesis by blast
  qed
qed

lemma material_separator_last:
  assumes "patron_match s = Some (c, m, n)" "m = u @ ''-generator-'' @ v"
  shows "v = []"
proof (rule ccontr)
  assume v: "v \<noteq> []"
  have f: "forma s c m n" using assms(1) by (rule patron_match_forma)
  have dm: "list_all dot u" "list_all dot v" using f assms(2) by (simp_all add: forma_def)
  have dg: "list_all dot ''-generator-''" by (simp add: dot_def)
  have "forma s (c @ ''-generator-'' @ u) v n"
    using f v dm dg unfolding forma_def assms(2) by auto
  from patron_match_longest [OF assms(1) this] show False by simp
qed

subsection \<open>Extraction\<close>

lemma visitar_acc: "visitar e acc = acc @ visitar e []"
  by (simp add: visitar_def split: option.splits prod.splits)

lemma fold_visitar: "fold visitar es acc = acc @ concat (map (\<lambda>e. visitar e []) es)"
proof (induction es arbitrary: acc)
  case Nil
  show ?case by simp
next
  case (Cons e es)
  have "fold visitar (e # es) acc = fold visitar es (visitar e acc)" by simp
  also have "\<dots> = visitar e acc @ concat (map (\<lambda>e. visitar e []) es)" by (rule Cons.IH)
  also have "\<dots> = acc @ visitar e [] @ concat (map (\<lambda>e. visitar e []) es)"
    by (subst visitar_acc) simp
  finally show ?case by simp
qed

lemma buscar_regiones_concat:
  "buscar_regiones root = concat (map (\<lambda>e. visitar e []) (iter root))"
  by (simp add: buscar_regiones_def fold_visitar)

lemma visitar_Nil:
  "visitar e [] =
     (case attrib e ''id'' of
        None \<Rightarrow> []
      | Some rid \<Rightarrow>
          (case patron_match rid of
             None \<Rightarrow> []
           | Some (c, m, n) \<Rightarrow>
               if m \<in> dom CONFIG_GENERADORES
               then [\<lparr>full_id = rid, color = c, material = m, num = n, team_id = ''team-'' @ c\<rparr>]
               else []))"
  by (simp add: visitar_def split: option.splits prod.splits)

lemma in_visitar:
  "g \<in> set (visitar e []) \<longleftrightarrow>
     attrib e ''id'' = Some (full_id g) \<and>
     patron_match (full_id g) = Some (color g, material g, num g) \<and>
     material g \<in> dom CONFIG_GENERADORES \<and> team_id g = ''team-'' @ color g"
  by (cases g) (auto simp: visitar_Nil split: option.splits prod.splits)

lemma in_buscar_regiones:
  "g \<in> set (buscar_regiones root) \<longleftrightarrow>
     (\<exists>e \<in> set (iter root). attrib e ''id'' = Some (full_id g)) \<and>
     patron_match (full_id g) = Some (color g, material g, num g) \<and>
     material g \<in> dom CONFIG_GENERADORES \<and> team_id g = ''team-'' @ color g"
  by (auto simp: buscar_regiones_concat in_visitar)

lemma buscar_regiones_same_id:
  assumes "g \<in> set (buscar_regiones root)" "h \<in> set (buscar_regiones root)" "full_id g = full_id h"
  shows "g = h"
proof -
  from assms(1) have g: "patron_match (full_id g) = Some (color g, material g, num g)"
    "team_id g = ''team-'' @ color g" by (simp_all add: in_buscar_regiones)
  from assms(2) have h: "patron_match (full_id h) = Some (color h, material h, num h)"
    "team_id h = ''team-'' @ color h" by (simp_all add: in_buscar_regiones)
  from g(1) h(1) assms(3) have "color g = color h" "material g = material h" "num g = num h"
    by simp_all
  with g(2) h(2) assms(3) show ?thesis by (intro region.equality) simp_all
qed

lemma map_full_id_visitar:
  "map full_id (visitar e []) =
     (case attrib e ''id'' of None \<Rightarrow> [] | Some rid \<Rightarrow> if aceptado rid then [rid] else [])"
  by (simp add: visitar_Nil aceptado_def split: option.splits prod.splits)

lemma full_id_buscar_regiones:
  "map full_id (buscar_regiones root) = filter aceptado (ids root)"
proof -
  have "map full_id (concat (map (\<lambda>e. visitar e []) es)) =
        filter aceptado (List.map_filter (\<lambda>e. attrib e ''id'') es)" for es
    by (induction es) (simp_all add: map_full_id_visitar List.map_filter_simps split: option.splits)
  then show ?thesis by (simp add: buscar_regiones_concat ids_def)
qed

subsection \<open>Sorting\<close>

lemma set_ordenar [simp]: "set (ordenar xs) = set xs"
  by (simp add: ordenar_def)

lemma mset_ordenar [simp]: "mset (ordenar xs) = mset xs"
  by (simp add: ordenar_def)

lemma ordenar_Nil_iff [simp]: "ordenar xs = [] \<longleftrightarrow> xs = []"
  by (metis set_ordenar set_empty)

subsection \<open>Sequencing and loops\<close>

lemma luego_ok: "snd a = None \<Longrightarrow> luego a b = (fst a @ fst b, snd b)"
  by (cases a; cases b) simp

lemma luego_imprimir: "luego (imprimir ls) b = (ls @ fst b, snd b)"
  by (simp add: imprimir_def luego_ok)

lemma for_each_ok:
  "(\<And>x. x \<in> set xs \<Longrightarrow> body x = (f x, None)) \<Longrightarrow> for_each body xs = (concat (map f xs), None)"
  by (induction xs) (simp_all add: luego_ok)

subsection \<open>The passes on configured regions\<close>

lemma str_int_0: "str_int 0 = ''0''"
  by (simp add: str_int_def str_nat.simps digit_char_def)

lemma filtro_lv0_eq: "filtro_lv0 g = ([variable_de g 0], None)"
  by (simp add: filtro_lv0_def variable_de_def var_name_def imprimir_def str_int_0)

lemma filtro_nivel_eq:
  assumes "material g \<in> dom CONFIG_GENERADORES"
  shows "filtro_nivel i g = (if i \<le> int (length (config_de g)) then [variable_de g i] else [], None)"
  using assms
  by (auto simp: filtro_nivel_def py_len_def config_de_def variable_de_def var_name_def imprimir_def)

lemma spawner_nivel_eq: "spawner_nivel (full_id g) (item_material (material g)) nd = (spawner_de g nd, None)"
  by (simp add: spawner_nivel_def spawner_de_def imprimir_def)

lemma spawner_gen_eq:
  assumes "material g \<in> dom CONFIG_GENERADORES"
  shows "spawner_gen g = (concat (map (spawner_de g) (config_de g)), None)"
proof -
  from assms obtain niveles where n: "CONFIG_GENERADORES (material g) = Some niveles" by auto
  have "for_each (spawner_nivel (full_id g) (item_material (material g))) niveles =
        (concat (map (spawner_de g) niveles), None)"
    by (rule for_each_ok) (rule spawner_nivel_eq)
  with n show ?thesis by (simp add: spawner_gen_def config_de_def)
qed

lemma generar_filtros_eq:
  assumes "\<And>g. g \<in> set gens \<Longrightarrow> material g \<in> dom CONFIG_GENERADORES"
  shows "generar_filtros gens =
           (Texto [NL, TAB] # map (\<lambda>g. variable_de g 0) gens @
              concat (map (\<lambda>i. Texto [NL, TAB] # bloque gens i) [1..max_levels]), None)"
proof -
  have a: "for_each filtro_lv0 gens = (concat (map (\<lambda>g. [variable_de g 0]) gens), None)"
    by (rule for_each_ok) (rule filtro_lv0_eq)
  have b: "for_each (filtro_nivel i) gens = (bloque gens i, None)" for i
    unfolding bloque_def by (rule for_each_ok) (simp add: filtro_nivel_eq assms)
  have c: "for_each (\<lambda>i. luego (imprimir [Texto [NL, TAB]]) (for_each (filtro_nivel i) gens)) is =
           (concat (map (\<lambda>i. Texto [NL, TAB] # bloque gens i) is), None)" for "is"
    by (rule for_each_ok) (simp add: b luego_imprimir)
  have d: "concat (map (\<lambda>g. [variable_de g 0]) gens) = map (\<lambda>g. variable_de g 0) gens"
    by (induction gens) simp_all
  show ?thesis
    unfolding generar_filtros_def a c d by (simp add: luego_imprimir)
qed

lemma generar_spawners_eq:
  assumes "\<And>g. g \<in> set gens \<Longrightarrow> material g \<in> dom CONFIG_GENERADORES"
  shows "generar_spawners gens = (concat (map (\<lambda>g. concat (map (spawner_de g) (config_de g))) gens), None)"
  unfolding generar_spawners_def
  by (rule for_each_ok) (simp add: spawner_gen_eq assms)

lemma procesar_eq:
  "procesar (Inr root) =
     (if buscar_regiones root = [] then [SinRegiones]
      else [Texto [NL], Texto [], Texto []] @
           fst (generar_filtros (ordenar (buscar_regiones root))) @
           [Texto [NL, NL], Texto []] @
           fst (generar_spawners (ordenar (buscar_regiones root))), None)"
proof -
  let ?gens = "ordenar (buscar_regiones root)"
  have conf: "\<And>g. g \<in> set ?gens \<Longrightarrow> material g \<in> dom CONFIG_GENERADORES"
    by (simp add: in_buscar_regiones)
  have "snd (generar_filtros ?gens) = None"
    using generar_filtros_eq [of ?gens] conf by simp
  moreover have "snd (generar_spawners ?gens) = None"
    using generar_spawners_eq [of ?gens] conf by simp
  ultimately show ?thesis
    by (simp add: procesar_def Let_def luego_ok luego_imprimir imprimir_def)
qed

lemma generadores_configured:
  "g \<in> set (generadores root) \<Longrightarrow> material g \<in> dom CONFIG_GENERADORES"
  by (simp add: generadores_def in_buscar_regiones)

lemma config_de_Some:
  "material g \<in> dom CONFIG_GENERADORES \<Longrightarrow> CONFIG_GENERADORES (material g) = Some (config_de g)"
  by (auto simp: config_de_def)

lemma dom_CONFIG: "dom CONFIG_GENERADORES = {''iron'', ''gold'', ''diamond''}"
  by (auto simp: CONFIG_GENERADORES_def split: if_splits)

lemma config_levels:
  assumes "material g \<in> dom CONFIG_GENERADORES"
  shows "map lvl (config_de g) = [1..int (length (config_de g))] \<and> int (length (config_de g)) \<le> max_levels"
proof -
  have u: "[1..4] = [1, 2, 3, 4::int]" "[1..3] = [1, 2, 3::int]" by (simp_all add: upto_rec1)
  from assms have "material g = ''iron'' \<or> material g = ''gold'' \<or> material g = ''diamond''"
    by (simp add: dom_CONFIG)
  then show ?thesis
    by (auto simp: config_de_def CONFIG_GENERADORES_def max_levels_def u)
qed

lemma concat_if_filter:
  "concat (map (\<lambda>i. if P i then [f i] else []) xs) = map f (filter P xs)"
  by (induction xs) simp_all

lemma filter_le_upto:
  assumes "a \<le> L + 1" "L \<le> b"
  shows "filter (\<lambda>i. i \<le> L) [a..b] = [a..L]"
proof (cases "a \<le> L")
  case True
  then have "[a..b] = [a..L] @ [L + 1..b]" using assms(2) by (rule upto_split2)
  then show ?thesis by (simp add: filter_id_conv filter_empty_conv)
next
  case False
  then show ?thesis by (simp add: filter_empty_conv)
qed

lemma mset_concat_append:
  "mset (concat (map (\<lambda>g. A g @ B g) gens)) = mset (concat (map A gens)) + mset (concat (map B gens))"
  by (induction gens) simp_all

lemma mset_concat_swap:
  "mset (concat (map (\<lambda>i. concat (map (F i) gens)) xs)) =
   mset (concat (map (\<lambda>g. concat (map (\<lambda>i. F i g) xs)) gens))"
proof (induction xs)
  case Nil
  show ?case by (induction gens) simp_all
next
  case (Cons i xs)
  show ?case by (simp add: Cons.IH mset_concat_append)
qed

lemma variables_generar_filtros:
  assumes "\<And>g. g \<in> set gens \<Longrightarrow> material g \<in> dom CONFIG_GENERADORES"
  shows "filter es_variable (fst (generar_filtros gens)) = concat (map (bloque gens) [0..max_levels])"
proof -
  have v: "filter es_variable (bloque gens i) = bloque gens i" for i
    unfolding bloque_def by (induction gens) (simp_all add: variable_de_def)
  have w: "filter es_variable (concat (map (\<lambda>i. Texto [NL, TAB] # bloque gens i) xs)) =
           concat (map (bloque gens) xs)" for xs
    by (induction xs) (simp_all add: v)
  have z: "map (\<lambda>g. variable_de g 0) gens = bloque gens 0"
    unfolding bloque_def by (induction gens) simp_all
  have f0: "filter es_variable (map (\<lambda>g. variable_de g 0) gens) = bloque gens 0"
    unfolding z by (rule v)
  have "[0..max_levels] = 0 # [1..max_levels]"
    by (simp add: max_levels_def upto_rec1)
  then show ?thesis
    by (simp add: generar_filtros_eq [of gens] assms w f0)
qed

lemma niveles_de_region:
  assumes "material g \<in> dom CONFIG_GENERADORES"
  shows "concat (map (\<lambda>i. if i \<le> int (length (config_de g)) then [variable_de g i] else []) [0..max_levels]) =
         map (variable_de g) [0..int (length (config_de g))]"
  using config_levels [OF assms]
  by (simp add: concat_if_filter filter_le_upto)

lemma buscar_regiones_fields:
  assumes "g \<in> set (buscar_regiones root)"
  shows "patron_match (full_id g) = Some (color g, material g, num g)"
    and "material g \<in> dom CONFIG_GENERADORES"
    and "team_id g = ''team-'' @ color g"
    and "\<exists>e \<in> set (iter root). attrib e ''id'' = Some (full_id g)"
  using assms unfolding in_buscar_regiones by blast+

subsection \<open>The lines of a run\<close>

lemma set_bloque:
  "set (bloque gens i) = {variable_de g i | g. g \<in> set gens \<and> i \<le> int (length (config_de g))}"
  unfolding bloque_def by (induction gens) auto

lemma es_variable_spawner_de: "l \<in> set (spawner_de g nd) \<Longrightarrow> \<not> es_variable l \<and> \<not> es_error l"
  by (auto simp: spawner_de_def)

lemma generar_xml_eggwars_Inr:
  "generar_xml_eggwars (Inr root) =
     (if buscar_regiones root = [] then [SinRegiones]
      else [Texto [NL], Texto [], Texto []] @
           fst (generar_filtros (generadores root)) @
           [Texto [NL, NL], Texto []] @
           fst (generar_spawners (generadores root)))"
  by (simp add: generar_xml_eggwars_def procesar_eq generadores_def)

lemma filtros_lines:
  assumes "l \<in> set (fst (generar_filtros (generadores root)))"
  shows "l = Texto [NL, TAB] \<or> (\<exists>g \<in> set (buscar_regiones root). \<exists>i. l = variable_de g i)"
proof -
  have conf: "\<And>g. g \<in> set (generadores root) \<Longrightarrow> material g \<in> dom CONFIG_GENERADORES"
    by (rule generadores_configured)
  have s: "set (generadores root) = set (buscar_regiones root)" by (simp add: generadores_def)
  have eq: "generar_filtros (generadores root) =
           (Texto [NL, TAB] # map (\<lambda>g. variable_de g 0) (generadores root) @
              concat (map (\<lambda>i. Texto [NL, TAB] # bloque (generadores root) i) [1..max_levels]), None)"
    using conf by (rule generar_filtros_eq)
  from assms show ?thesis
    by (auto simp: eq set_bloque s split: if_splits)
qed

lemma spawners_lines:
  assumes "l \<in> set (fst (generar_spawners (generadores root)))"
  shows "\<exists>g \<in> set (buscar_regiones root). \<exists>nd \<in> set (config_de g). l \<in> set (spawner_de g nd)"
proof -
  have conf: "\<And>g. g \<in> set (generadores root) \<Longrightarrow> material g \<in> dom CONFIG_GENERADORES"
    by (rule generadores_configured)
  have s: "set (generadores root) = set (buscar_regiones root)" by (simp add: generadores_def)
  have eq: "generar_spawners (generadores root) =
          (concat (map (\<lambda>g. concat (map (spawner_de g) (config_de g))) (generadores root)), None)"
    using conf by (rule generar_spawners_eq)
  from assms show ?thesis
    by (auto simp: eq s)
qed

lemma salida_lines:
  assumes "l \<in> set (generar_xml_eggwars (Inr root))"
  shows "l = SinRegiones \<or> (\<exists>s. l = Texto s) \<or>
         (\<exists>g \<in> set (buscar_regiones root). \<exists>i. l = variable_de g i) \<or>
         (\<exists>g \<in> set (buscar_regiones root). \<exists>nd \<in> set (config_de g). l \<in> set (spawner_de g nd))"
proof (cases "buscar_regiones root = []")
  case True
  with assms show ?thesis by (simp add: generar_xml_eggwars_Inr)
next
  case False
  with assms consider "l \<in> set [Texto [NL], Texto [], Texto [], Texto [NL, NL], Texto []]"
    | "l \<in> set (fst (generar_filtros (generadores root)))"
    | "l \<in> set (fst (generar_spawners (generadores root)))"
    unfolding generar_xml_eggwars_Inr by auto
  then show ?thesis
  proof cases
    case 1
    then show ?thesis by auto
  next
    case 2
    from filtros_lines [OF this] show ?thesis by blast
  next
    case 3
    from spawners_lines [OF this] show ?thesis by blast
  qed
qed

lemma variable_lines:
  assumes "l \<in> set (generar_xml_eggwars (Inr root))" "es_variable l"
  shows "\<exists>g \<in> set (buscar_regiones root). l = variable_de g (valor l)"
proof -
  from salida_lines [OF assms(1)] assms(2)
  have "(\<exists>g \<in> set (buscar_regiones root). \<exists>i. l = variable_de g i)"
    using es_variable_spawner_de by fastforce
  then obtain g i where g: "g \<in> set (buscar_regiones root)" "l = variable_de g i" by blast
  then have "valor l = i" by (simp add: variable_de_def)
  with g show ?thesis by (intro bexI [of _ g]) simp_all
qed

lemma spawner_lines:
  assumes "l \<in> set (generar_xml_eggwars (Inr root))" "es_spawner l"
  shows "\<exists>g \<in> set (buscar_regiones root). \<exists>nd \<in> set (config_de g).
           l = SpawnerOpen (full_id g) (delay nd) (full_id g @ ''-lv'' @ str_int (lvl nd))"
proof -
  from salida_lines [OF assms(1)] assms(2)
  have "\<exists>g \<in> set (buscar_regiones root). \<exists>nd \<in> set (config_de g). l \<in> set (spawner_de g nd)"
    by (auto simp: variable_de_def)
  then obtain g nd where g: "g \<in> set (buscar_regiones root)" "nd \<in> set (config_de g)"
    "l \<in> set (spawner_de g nd)" by blast
  from g(3) assms(2) have "l = SpawnerOpen (full_id g) (delay nd) (full_id g @ ''-lv'' @ str_int (lvl nd))"
    by (auto simp: spawner_de_def)
  with g show ?thesis by blast
qed

lemma no_error_lines:
  assumes "l \<in> set (fst (procesar parsed))"
  shows "\<not> es_error l"
proof (cases parsed)
  case (Inl e)
  with assms show ?thesis by (simp add: procesar_def lanzar_def)
next
  case (Inr root)
  have "generar_xml_eggwars (Inr root) = fst (procesar (Inr root))"
    by (simp add: generar_xml_eggwars_def procesar_eq)
  with assms Inr have "l \<in> set (generar_xml_eggwars (Inr root))" by simp
  from salida_lines [OF this] show ?thesis
    using es_variable_spawner_de by (auto simp: variable_de_def)
qed

subsection \<open>Regrouping the passes by region\<close>

lemma mset_variables_por_region:
  assumes "\<And>g. g \<in> set gens \<Longrightarrow> material g \<in> dom CONFIG_GENERADORES"
  shows "mset (filter es_variable (fst (generar_filtros gens))) =
         mset (concat (map (\<lambda>g. map (variable_de g) [0..int (length (config_de g))]) gens))"
proof -
  let ?F = "\<lambda>i g. if i \<le> int (length (config_de g)) then [variable_de g i] else []"
  have "filter es_variable (fst (generar_filtros gens)) =
        concat (map (\<lambda>i. concat (map (?F i) gens)) [0..max_levels])"
    using variables_generar_filtros [of gens] assms by (simp add: bloque_def [abs_def])
  then have "mset (filter es_variable (fst (generar_filtros gens))) =
        mset (concat (map (\<lambda>i. concat (map (?F i) gens)) [0..max_levels]))"
    by (rule arg_cong)
  also have "\<dots> = mset (concat (map (\<lambda>g. concat (map (\<lambda>i. ?F i g) [0..max_levels])) gens))"
    by (rule mset_concat_swap)
  also have "map (\<lambda>g. concat (map (\<lambda>i. ?F i g) [0..max_levels])) gens =
             map (\<lambda>g. map (variable_de g) [0..int (length (config_de g))]) gens"
    by (rule map_cong [OF refl]) (simp only: niveles_de_region [OF assms])
  finally show ?thesis .
qed

lemma spawners_de_region:
  "map (\<lambda>l. (spawn_region l, spawn_delay l, filter_ref l))
     (filter es_spawner (concat (map (spawner_de g) nds))) =
   map (\<lambda>nd. (full_id g, delay nd, full_id g @ ''-lv'' @ str_int (lvl nd))) nds"
  by (induction nds) (simp_all add: spawner_de_def)

lemma spawners_de_regiones:
  "map (\<lambda>l. (spawn_region l, spawn_delay l, filter_ref l))
     (filter es_spawner (concat (map (\<lambda>g. concat (map (spawner_de g) (config_de g))) gens))) =
   concat (map (\<lambda>g. map (\<lambda>nd. (full_id g, delay nd, full_id g @ ''-lv'' @ str_int (lvl nd)))
     (config_de g)) gens)"
  by (induction gens) (simp_all add: spawners_de_region)

lemma variable_del_nivel:
  assumes "\<And>g. g \<in> set gens \<Longrightarrow> material g \<in> dom CONFIG_GENERADORES"
    and "g \<in> set gens" "nd \<in> set (config_de g)"
  shows "variable_de g (lvl nd) \<in> set (fst (generar_filtros gens))"
proof -
  from config_levels [OF assms(1) [OF assms(2)]]
  have m: "map lvl (config_de g) = [1..int (length (config_de g))]"
    and le: "int (length (config_de g)) \<le> max_levels" by blast+
  have "lvl nd \<in> set (map lvl (config_de g))" using assms(3) by simp
  then have r: "1 \<le> lvl nd" "lvl nd \<le> int (length (config_de g))" unfolding m by simp_all
  then have i: "lvl nd \<in> set [1..max_levels]" using le by simp
  have "variable_de g (lvl nd) \<in> set (bloque gens (lvl nd))"
    using assms(2) r(2) unfolding set_bloque by blast
  then have "variable_de g (lvl nd) \<in> set (Texto [NL, TAB] # bloque gens (lvl nd))" by simp
  with i have "variable_de g (lvl nd) \<in>
      set (concat (map (\<lambda>i. Texto [NL, TAB] # bloque gens i) [1..max_levels]))"
    unfolding set_concat set_map by blast
  moreover have "generar_filtros gens =
           (Texto [NL, TAB] # map (\<lambda>g. variable_de g 0) gens @
              concat (map (\<lambda>i. Texto [NL, TAB] # bloque gens i) [1..max_levels]), None)"
    using assms(1) by (rule generar_filtros_eq)
  ultimately show ?thesis by simp
qed

subsection \<open>What is recorded for an identifier\<close>

lemma gramatica_last_digit:
  assumes "gramatica s c m n"
  shows "last s \<in> set ''0123456789''"
proof -
  from assms have s: "s = ''team-'' @ c @ ''-generator-'' @ m @ ''-'' @ n" and n: "n \<noteq> []"
    and d: "list_all (\<lambda>d. d \<in> set ''0123456789'') n"
    unfolding gramatica_def by blast+
  have "last s = last n" unfolding s using n by simp
  moreover have "last n \<in> set n" using n by simp
  moreover have "\<forall>x \<in> set n. x \<in> set ''0123456789''" using d by (simp only: list_all_iff)
  ultimately show ?thesis by metis
qed

lemma extraccion_por_patron:
  assumes "elem \<in> set (iter root)" "attrib elem ''id'' = Some rid"
  shows "{g \<in> set (buscar_regiones root). full_id g = rid} =
           (case patron_match rid of
              None \<Rightarrow> {}
            | Some (c, m, n) \<Rightarrow>
                if m \<in> dom CONFIG_GENERADORES
                then {\<lparr>full_id = rid, color = c, material = m, num = n, team_id = ''team-'' @ c\<rparr>}
                else {}) \<and>
         snd (procesar (Inr root)) = None"
proof -
  let ?S = "{g \<in> set (buscar_regiones root). full_id g = rid}"
  have "?S =
           (case patron_match rid of
              None \<Rightarrow> {}
            | Some (c, m, n) \<Rightarrow>
                if m \<in> dom CONFIG_GENERADORES
                then {\<lparr>full_id = rid, color = c, material = m, num = n, team_id = ''team-'' @ c\<rparr>}
                else {})"
  proof (cases "patron_match rid")
    case None
    have "?S = {}"
    proof -
      have "g \<notin> ?S" for g
      proof
        assume "g \<in> ?S"
        then have "g \<in> set (buscar_regiones root)" "full_id g = rid" by simp_all
        with buscar_regiones_fields(1) [of g root] None show False by simp
      qed
      then show ?thesis by blast
    qed
    with None show ?thesis by simp
  next
    case (Some a)
    obtain c m n where a: "a = (c, m, n)" by (cases a)
    let ?r = "\<lparr>full_id = rid, color = c, material = m, num = n, team_id = ''team-'' @ c\<rparr>"
    have pm: "patron_match rid = Some (c, m, n)" using Some a by simp
    have fields: "color g = c \<and> material g = m \<and> num g = n \<and> team_id g = ''team-'' @ c"
      if "g \<in> ?S" for g
    proof -
      from that have g: "g \<in> set (buscar_regiones root)" "full_id g = rid" by simp_all
      from buscar_regiones_fields(1) [OF g(1)] g(2) pm
      have "color g = c" "material g = m" "num g = n" by simp_all
      with buscar_regiones_fields(3) [OF g(1)] show ?thesis by simp
    qed
    show ?thesis
    proof (cases "m \<in> dom CONFIG_GENERADORES")
      case True
      have "?r \<in> set (buscar_regiones root)"
        unfolding in_buscar_regiones using assms pm True by (simp add: bexI [of _ elem])
      then have "?r \<in> ?S" by simp
      moreover have "g = ?r" if "g \<in> ?S" for g
        using fields [OF that] that by (intro region.equality) simp_all
      ultimately have "?S = {?r}" by blast
      with pm True show ?thesis by simp
    next
      case False
      have "g \<notin> ?S" for g
      proof
        assume g: "g \<in> ?S"
        then have "g \<in> set (buscar_regiones root)" by simp
        from buscar_regiones_fields(2) [OF this] fields [OF g] False show False by simp
      qed
      then have "?S = {}" by blast
      with pm False show ?thesis by simp
    qed
  qed
  moreover have "snd (procesar (Inr root)) = None" by (simp add: procesar_eq)
  ultimately show ?thesis by (rule conjI)
qed

section \<open>The claims\<close>

text \<open>
  C1. The claim holds for every identifier on which the pattern agrees with the documented
  format, but the pattern ends in \<^verbatim>\<open>$\<close>, which Python also lets hold before a final line
  feed. An element whose \<^verbatim>\<open>id\<close> is \<^verbatim>\<open>team-red-generator-iron-1\<close> followed by a line feed
  does not have the documented format on its whole value, yet the pattern matches it, a
  region is recorded whose full identifier keeps the line feed, and declarations are printed
  for it; the same identifier without the line feed has the format.
\<close>

theorem C1_line_feed_recorded:
  "attrib (hd (children mapa_salto_de_linea)) ''id'' = Some (''team-red-generator-iron-1'' @ [NL]) \<and>
   \<not> (\<exists>c m n. gramatica (''team-red-generator-iron-1'' @ [NL]) c m n) \<and>
   patron_match (''team-red-generator-iron-1'' @ [NL]) = Some (''red'', ''iron'', ''1'') \<and>
   buscar_regiones mapa_salto_de_linea =
     [\<lparr>full_id = ''team-red-generator-iron-1'' @ [NL], color = ''red'', material = ''iron'',
       num = ''1'', team_id = ''team-red''\<rparr>] \<and>
   generar_xml_eggwars (Inr mapa_salto_de_linea) ! 4 =
     Variable (''team-red-generator-iron-1'' @ [NL] @ ''-lv0'') ''team_generator_iron_1'' ''team-red'' 0 \<and>
   gramatica ''team-red-generator-iron-1'' ''red'' ''iron'' ''1''"
proof -
  have a: "attrib (hd (children mapa_salto_de_linea)) ''id'' = Some (''team-red-generator-iron-1'' @ [NL])"
    by (simp add: mapa_salto_de_linea_def)
  have b: "\<not> (\<exists>c m n. gramatica (''team-red-generator-iron-1'' @ [NL]) c m n)"
  proof
    assume "\<exists>c m n. gramatica (''team-red-generator-iron-1'' @ [NL]) c m n"
    then obtain c m n where "gramatica (''team-red-generator-iron-1'' @ [NL]) c m n" by blast
    from gramatica_last_digit [OF this] show False by simp
  qed
  have c: "patron_match (''team-red-generator-iron-1'' @ [NL]) = Some (''red'', ''iron'', ''1'')"
    by code_simp
  have d: "buscar_regiones mapa_salto_de_linea =
     [\<lparr>full_id = ''team-red-generator-iron-1'' @ [NL], color = ''red'', material = ''iron'',
       num = ''1'', team_id = ''team-red''\<rparr>]"
    by code_simp
  have e: "generar_xml_eggwars (Inr mapa_salto_de_linea) ! 4 =
     Variable (''team-red-generator-iron-1'' @ [NL] @ ''-lv0'') ''team_generator_iron_1'' ''team-red'' 0"
    by code_simp
  have f: "gramatica ''team-red-generator-iron-1'' ''red'' ''iron'' ''1''"
    by (simp add: gramatica_def)
  from a b c d e f show ?thesis by blast
qed

text \<open>
  C2. The variable pass raises nothing, and the variable lines it prints are, up to their
  order, exactly these: for each region of the list, one line for each level from 0 to the
  number \<open>L\<close> of timing entries of its material, that is \<open>L + 1\<close> lines. The line of level \<open>k\<close>
  has value \<open>k\<close>, its filter identifier is the region's full identifier followed by
  \<^verbatim>\<open>-lv\<close> and \<open>k\<close>, and its variable name is built from the material and the number alone.
\<close>

theorem C2_variables:
  "snd (generar_filtros (generadores root)) = None \<and>
   mset (filter es_variable (fst (generar_filtros (generadores root)))) =
     mset (concat (map (\<lambda>g. map (\<lambda>k.
        Variable (full_id g @ ''-lv'' @ str_int k)
          (''team_generator_'' @ material g @ ''_'' @ num g) (team_id g) k)
        [0..int (length (config_de g))]) (generadores root))) \<and>
   (\<forall>g \<in> set (generadores root).
      CONFIG_GENERADORES (material g) = Some (config_de g) \<and>
      length [0..int (length (config_de g))] = length (config_de g) + 1)"
proof -
  have conf: "\<And>g. g \<in> set (generadores root) \<Longrightarrow> material g \<in> dom CONFIG_GENERADORES"
    by (rule generadores_configured)
  have "snd (generar_filtros (generadores root)) = None"
    using generar_filtros_eq [of "generadores root"] conf by simp
  moreover have "mset (filter es_variable (fst (generar_filtros (generadores root)))) =
     mset (concat (map (\<lambda>g. map (\<lambda>k.
        Variable (full_id g @ ''-lv'' @ str_int k)
          (''team_generator_'' @ material g @ ''_'' @ num g) (team_id g) k)
        [0..int (length (config_de g))]) (generadores root)))"
    using mset_variables_por_region [of "generadores root"] conf
    by (simp add: variable_de_def [abs_def])
  moreover have "\<forall>g \<in> set (generadores root).
      CONFIG_GENERADORES (material g) = Some (config_de g) \<and>
      length [0..int (length (config_de g))] = length (config_de g) + 1"
  proof
    fix g assume "g \<in> set (generadores root)"
    then have "CONFIG_GENERADORES (material g) = Some (config_de g)"
      using conf config_de_Some by blast
    moreover have "length [0..int (length (config_de g))] = length (config_de g) + 1"
      by (simp add: nat_add_distrib)
    ultimately show "CONFIG_GENERADORES (material g) = Some (config_de g) \<and>
      length [0..int (length (config_de g))] = length (config_de g) + 1" by (rule conjI)
  qed
  ultimately show ?thesis by blast
qed

theorem C2_variables_witness:
  "snd (generar_filtros (generadores mapa_ejemplo)) = None \<and>
   mset (filter es_variable (fst (generar_filtros (generadores mapa_ejemplo)))) =
     mset [Variable ''team-blue-generator-diamond-2-lv0'' ''team_generator_diamond_2'' ''team-blue'' 0,
           Variable ''team-blue-generator-diamond-2-lv1'' ''team_generator_diamond_2'' ''team-blue'' 1,
           Variable ''team-blue-generator-diamond-2-lv2'' ''team_generator_diamond_2'' ''team-blue'' 2,
           Variable ''team-blue-generator-diamond-2-lv3'' ''team_generator_diamond_2'' ''team-blue'' 3,
           Variable ''team-red-generator-iron-1-lv0'' ''team_generator_iron_1'' ''team-red'' 0,
           Variable ''team-red-generator-iron-1-lv1'' ''team_generator_iron_1'' ''team-red'' 1,
           Variable ''team-red-generator-iron-1-lv2'' ''team_generator_iron_1'' ''team-red'' 2,
           Variable ''team-red-generator-iron-1-lv3'' ''team_generator_iron_1'' ''team-red'' 3,
           Variable ''team-red-generator-iron-1-lv4'' ''team_generator_iron_1'' ''team-red'' 4] \<and>
   length (filter es_variable (fst (generar_filtros (generadores mapa_ejemplo)))) = 9"
proof -
  have g: "generadores mapa_ejemplo =
     [\<lparr>full_id = ''team-blue-generator-diamond-2'', color = ''blue'', material = ''diamond'',
        num = ''2'', team_id = ''team-blue''\<rparr>,
      \<lparr>full_id = ''team-red-generator-iron-1'', color = ''red'', material = ''iron'',
        num = ''1'', team_id = ''team-red''\<rparr>]"
    by code_simp
  have s: "str_int 0 = ''0''" "str_int 1 = ''1''" "str_int 2 = ''2''" "str_int 3 = ''3''"
    "str_int 4 = ''4''"
    by (simp_all add: str_int_def str_nat.simps digit_char_def)
  note t = C2_variables [of mapa_ejemplo]
  from t have a: "snd (generar_filtros (generadores mapa_ejemplo)) = None" by blast
  from t have "mset (filter es_variable (fst (generar_filtros (generadores mapa_ejemplo)))) =
     mset (concat (map (\<lambda>g. map (\<lambda>k.
        Variable (full_id g @ ''-lv'' @ str_int k)
          (''team_generator_'' @ material g @ ''_'' @ num g) (team_id g) k)
        [0..int (length (config_de g))]) (generadores mapa_ejemplo)))"
    by blast
  also have "concat (map (\<lambda>g. map (\<lambda>k.
        Variable (full_id g @ ''-lv'' @ str_int k)
          (''team_generator_'' @ material g @ ''_'' @ num g) (team_id g) k)
        [0..int (length (config_de g))]) (generadores mapa_ejemplo)) =
     [Variable ''team-blue-generator-diamond-2-lv0'' ''team_generator_diamond_2'' ''team-blue'' 0,
           Variable ''team-blue-generator-diamond-2-lv1'' ''team_generator_diamond_2'' ''team-blue'' 1,
           Variable ''team-blue-generator-diamond-2-lv2'' ''team_generator_diamond_2'' ''team-blue'' 2,
           Variable ''team-blue-generator-diamond-2-lv3'' ''team_generator_diamond_2'' ''team-blue'' 3,
           Variable ''team-red-generator-iron-1-lv0'' ''team_generator_iron_1'' ''team-red'' 0,
           Variable ''team-red-generator-iron-1-lv1'' ''team_generator_iron_1'' ''team-red'' 1,
           Variable ''team-red-generator-iron-1-lv2'' ''team_generator_iron_1'' ''team-red'' 2,
           Variable ''team-red-generator-iron-1-lv3'' ''team_generator_iron_1'' ''team-red'' 3,
           Variable ''team-red-generator-iron-1-lv4'' ''team_generator_iron_1'' ''team-red'' 4]"
    by (simp add: g config_de_def CONFIG_GENERADORES_def upto_rec1 s)
  finally have b: "mset (filter es_variable (fst (generar_filtros (generadores mapa_ejemplo)))) =
     mset [Variable ''team-blue-generator-diamond-2-lv0'' ''team_generator_diamond_2'' ''team-blue'' 0,
           Variable ''team-blue-generator-diamond-2-lv1'' ''team_generator_diamond_2'' ''team-blue'' 1,
           Variable ''team-blue-generator-diamond-2-lv2'' ''team_generator_diamond_2'' ''team-blue'' 2,
           Variable ''team-blue-generator-diamond-2-lv3'' ''team_generator_diamond_2'' ''team-blue'' 3,
           Variable ''team-red-generator-iron-1-lv0'' ''team_generator_iron_1'' ''team-red'' 0,
           Variable ''team-red-generator-iron-1-lv1'' ''team_generator_iron_1'' ''team-red'' 1,
           Variable ''team-red-generator-iron-1-lv2'' ''team_generator_iron_1'' ''team-red'' 2,
           Variable ''team-red-generator-iron-1-lv3'' ''team_generator_iron_1'' ''team-red'' 3,
           Variable ''team-red-generator-iron-1-lv4'' ''team_generator_iron_1'' ''team-red'' 4]" .
  from b have "size (mset (filter es_variable (fst (generar_filtros (generadores mapa_ejemplo))))) = 9"
    by simp
  then have c: "length (filter es_variable (fst (generar_filtros (generadores mapa_ejemplo)))) = 9"
    by (simp only: size_mset)
  from a b c show ?thesis by blast
qed

text \<open>
  C3. The spawner pass raises nothing and prints one spawner per region and timing entry,
  regions in list order and entries in table order; each names the region's full
  identifier, the entry's delay, and as filter the full identifier followed by \<^verbatim>\<open>-lv\<close>
  and the entry's level, which is the filter identifier of a variable line that the
  variable pass prints for that region with that level as its value.
\<close>

theorem C3_spawners:
  "snd (generar_spawners (generadores root)) = None \<and>
   map (\<lambda>l. (spawn_region l, spawn_delay l, filter_ref l))
     (filter es_spawner (fst (generar_spawners (generadores root)))) =
     concat (map (\<lambda>g. map (\<lambda>nd. (full_id g, delay nd, full_id g @ ''-lv'' @ str_int (lvl nd)))
       (config_de g)) (generadores root)) \<and>
   (\<forall>g \<in> set (generadores root).
      CONFIG_GENERADORES (material g) = Some (config_de g) \<and>
      (\<forall>nd \<in> set (config_de g).
         \<exists>v \<in> set (fst (generar_filtros (generadores root))).
           es_variable v \<and> valor v = lvl nd \<and> team v = team_id g \<and>
           filter_id v = full_id g @ ''-lv'' @ str_int (lvl nd)))"
proof -
  have conf: "\<And>g. g \<in> set (generadores root) \<Longrightarrow> material g \<in> dom CONFIG_GENERADORES"
    by (rule generadores_configured)
  have eq: "generar_spawners (generadores root) =
          (concat (map (\<lambda>g. concat (map (spawner_de g) (config_de g))) (generadores root)), None)"
    using conf by (rule generar_spawners_eq)
  have a: "snd (generar_spawners (generadores root)) = None" by (simp add: eq)
  have b: "map (\<lambda>l. (spawn_region l, spawn_delay l, filter_ref l))
     (filter es_spawner (fst (generar_spawners (generadores root)))) =
     concat (map (\<lambda>g. map (\<lambda>nd. (full_id g, delay nd, full_id g @ ''-lv'' @ str_int (lvl nd)))
       (config_de g)) (generadores root))"
    unfolding eq fst_conv by (rule spawners_de_regiones)
  have c: "\<forall>g \<in> set (generadores root).
      CONFIG_GENERADORES (material g) = Some (config_de g) \<and>
      (\<forall>nd \<in> set (config_de g).
         \<exists>v \<in> set (fst (generar_filtros (generadores root))).
           es_variable v \<and> valor v = lvl nd \<and> team v = team_id g \<and>
           filter_id v = full_id g @ ''-lv'' @ str_int (lvl nd))"
  proof (intro ballI conjI)
    fix g assume g: "g \<in> set (generadores root)"
    show "CONFIG_GENERADORES (material g) = Some (config_de g)"
      using conf [OF g] by (rule config_de_Some)
    fix nd assume nd: "nd \<in> set (config_de g)"
    have "variable_de g (lvl nd) \<in> set (fst (generar_filtros (generadores root)))"
      using conf g nd by (rule variable_del_nivel)
    then show "\<exists>v \<in> set (fst (generar_filtros (generadores root))).
           es_variable v \<and> valor v = lvl nd \<and> team v = team_id g \<and>
           filter_id v = full_id g @ ''-lv'' @ str_int (lvl nd)"
      by (rule bexI [rotated]) (simp add: variable_de_def)
  qed
  from a b c show ?thesis by blast
qed

theorem C3_spawners_witness:
  "snd (generar_spawners (generadores mapa_ejemplo)) = None \<and>
   map (\<lambda>l. (spawn_region l, spawn_delay l, filter_ref l))
     (filter es_spawner (fst (generar_spawners (generadores mapa_ejemplo)))) =
     [(''team-blue-generator-diamond-2'', ''10s'', ''team-blue-generator-diamond-2-lv1''),
      (''team-blue-generator-diamond-2'', ''5s'', ''team-blue-generator-diamond-2-lv2''),
      (''team-blue-generator-diamond-2'', ''2.5s'', ''team-blue-generator-diamond-2-lv3''),
      (''team-red-generator-iron-1'', ''1s'', ''team-red-generator-iron-1-lv1''),
      (''team-red-generator-iron-1'', ''0.75s'', ''team-red-generator-iron-1-lv2''),
      (''team-red-generator-iron-1'', ''0.5s'', ''team-red-generator-iron-1-lv3''),
      (''team-red-generator-iron-1'', ''0.25s'', ''team-red-generator-iron-1-lv4'')] \<and>
   (\<exists>v \<in> set (fst (generar_filtros (generadores mapa_ejemplo))).
      es_variable v \<and> valor v = 4 \<and> team v = ''team-red'' \<and>
      filter_id v = ''team-red-generator-iron-1-lv4'')"
proof -
  let ?g = "\<lparr>full_id = ''team-red-generator-iron-1'', color = ''red'', material = ''iron'',
        num = ''1'', team_id = ''team-red''\<rparr>"
  let ?nd = "\<lparr>lvl = 4, delay = ''0.25s''\<rparr>"
  have g: "generadores mapa_ejemplo =
     [\<lparr>full_id = ''team-blue-generator-diamond-2'', color = ''blue'', material = ''diamond'',
        num = ''2'', team_id = ''team-blue''\<rparr>, ?g]"
    by code_simp
  have s: "str_int 1 = ''1''" "str_int 2 = ''2''" "str_int 3 = ''3''" "str_int 4 = ''4''"
    by (simp_all add: str_int_def str_nat.simps digit_char_def)
  note t = C3_spawners [of mapa_ejemplo]
  from t have a: "snd (generar_spawners (generadores mapa_ejemplo)) = None" by blast
  from t have "map (\<lambda>l. (spawn_region l, spawn_delay l, filter_ref l))
     (filter es_spawner (fst (generar_spawners (generadores mapa_ejemplo)))) =
     concat (map (\<lambda>g. map (\<lambda>nd. (full_id g, delay nd, full_id g @ ''-lv'' @ str_int (lvl nd)))
       (config_de g)) (generadores mapa_ejemplo))"
    by blast
  also have "\<dots> =
     [(''team-blue-generator-diamond-2'', ''10s'', ''team-blue-generator-diamond-2-lv1''),
      (''team-blue-generator-diamond-2'', ''5s'', ''team-blue-generator-diamond-2-lv2''),
      (''team-blue-generator-diamond-2'', ''2.5s'', ''team-blue-generator-diamond-2-lv3''),
      (''team-red-generator-iron-1'', ''1s'', ''team-red-generator-iron-1-lv1''),
      (''team-red-generator-iron-1'', ''0.75s'', ''team-red-generator-iron-1-lv2''),
      (''team-red-generator-iron-1'', ''0.5s'', ''team-red-generator-iron-1-lv3''),
      (''team-red-generator-iron-1'', ''0.25s'', ''team-red-generator-iron-1-lv4'')]"
    by (simp add: g config_de_def CONFIG_GENERADORES_def s)
  finally have b: "map (\<lambda>l. (spawn_region l, spawn_delay l, filter_ref l))
     (filter es_spawner (fst (generar_spawners (generadores mapa_ejemplo)))) =
     [(''team-blue-generator-diamond-2'', ''10s'', ''team-blue-generator-diamond-2-lv1''),
      (''team-blue-generator-diamond-2'', ''5s'', ''team-blue-generator-diamond-2-lv2''),
      (''team-blue-generator-diamond-2'', ''2.5s'', ''team-blue-generator-diamond-2-lv3''),
      (''team-red-generator-iron-1'', ''1s'', ''team-red-generator-iron-1-lv1''),
      (''team-red-generator-iron-1'', ''0.75s'', ''team-red-generator-iron-1-lv2''),
      (''team-red-generator-iron-1'', ''0.5s'', ''team-red-generator-iron-1-lv3''),
      (''team-red-generator-iron-1'', ''0.25s'', ''team-red-generator-iron-1-lv4'')]" .
  have gm: "?g \<in> set (generadores mapa_ejemplo)" by (simp add: g)
  have nm: "?nd \<in> set (config_de ?g)" by (simp add: config_de_def CONFIG_GENERADORES_def)
  from t gm nm have "\<exists>v \<in> set (fst (generar_filtros (generadores mapa_ejemplo))).
           es_variable v \<and> valor v = lvl ?nd \<and> team v = team_id ?g \<and>
           filter_id v = full_id ?g @ ''-lv'' @ str_int (lvl ?nd)"
    by blast
  then have c: "\<exists>v \<in> set (fst (generar_filtros (generadores mapa_ejemplo))).
      es_variable v \<and> valor v = 4 \<and> team v = ''team-red'' \<and>
      filter_id v = ''team-red-generator-iron-1-lv4''"
    by (simp add: s)
  from a b c show ?thesis by blast
qed

text \<open>
  C4 (as amended). The extracted list holds one region for each element whose \<^verbatim>\<open>id\<close> is
  accepted, in document order, so its identifiers are those accepted identifiers with their
  repetitions: nothing is removed when two elements carry the same \<^verbatim>\<open>id\<close>. Every variable
  line and every spawner line of a run comes from exactly one region value of that list.
\<close>

theorem C4_traceability:
  "map full_id (buscar_regiones root) = filter aceptado (ids root) \<and>
   (\<forall>l \<in> set (generar_xml_eggwars (Inr root)).
      (es_variable l \<longrightarrow>
         (\<exists>!g. g \<in> set (buscar_regiones root) \<and>
                filter_id l = full_id g @ ''-lv'' @ str_int (valor l))) \<and>
      (es_spawner l \<longrightarrow>
         (\<exists>!g. g \<in> set (buscar_regiones root) \<and> spawn_region l = full_id g)))"
proof (intro conjI ballI impI)
  show "map full_id (buscar_regiones root) = filter aceptado (ids root)"
    by (rule full_id_buscar_regiones)
next
  fix l assume l: "l \<in> set (generar_xml_eggwars (Inr root))" "es_variable l"
  from variable_lines [OF l] obtain g where g: "g \<in> set (buscar_regiones root)"
    "l = variable_de g (valor l)" by blast
  have f: "filter_id l = full_id g @ ''-lv'' @ str_int (valor l)"
    by (subst g(2), simp add: variable_de_def)
  show "\<exists>!g. g \<in> set (buscar_regiones root) \<and>
                filter_id l = full_id g @ ''-lv'' @ str_int (valor l)"
  proof (rule ex1I [of _ g])
    show "g \<in> set (buscar_regiones root) \<and> filter_id l = full_id g @ ''-lv'' @ str_int (valor l)"
      using g(1) f by simp
  next
    fix h assume h: "h \<in> set (buscar_regiones root) \<and>
                filter_id l = full_id h @ ''-lv'' @ str_int (valor l)"
    with f have "full_id h = full_id g" by simp
    with h g(1) show "h = g" using buscar_regiones_same_id by blast
  qed
next
  fix l assume l: "l \<in> set (generar_xml_eggwars (Inr root))" "es_spawner l"
  from spawner_lines [OF l] obtain g where g: "g \<in> set (buscar_regiones root)"
    "spawn_region l = full_id g" by auto
  show "\<exists>!g. g \<in> set (buscar_regiones root) \<and> spawn_region l = full_id g"
  proof (rule ex1I [of _ g])
    show "g \<in> set (buscar_regiones root) \<and> spawn_region l = full_id g" using g by simp
  next
    fix h assume "h \<in> set (buscar_regiones root) \<and> spawn_region l = full_id h"
    with g show "h = g" using buscar_regiones_same_id by metis
  qed
qed

theorem C4_traceability_witness:
  "map full_id (buscar_regiones mapa_duplicado) = filter aceptado (ids mapa_duplicado) \<and>
   filter aceptado (ids mapa_duplicado) = [''team-red-generator-iron-1'', ''team-red-generator-iron-1''] \<and>
   SpawnerOpen ''team-red-generator-iron-1'' ''0.5s'' ''team-red-generator-iron-1-lv3''
     \<in> set (generar_xml_eggwars (Inr mapa_duplicado)) \<and>
   (\<exists>!g. g \<in> set (buscar_regiones mapa_duplicado) \<and> ''team-red-generator-iron-1'' = full_id g) \<and>
   Variable ''team-red-generator-iron-1-lv3'' ''team_generator_iron_1'' ''team-red'' 3
     \<in> set (generar_xml_eggwars (Inr mapa_duplicado)) \<and>
   (\<exists>!g. g \<in> set (buscar_regiones mapa_duplicado) \<and>
          ''team-red-generator-iron-1-lv3'' = full_id g @ ''-lv'' @ str_int 3)"
proof -
  let ?s = "SpawnerOpen ''team-red-generator-iron-1'' ''0.5s'' ''team-red-generator-iron-1-lv3''"
  let ?v = "Variable ''team-red-generator-iron-1-lv3'' ''team_generator_iron_1'' ''team-red'' 3"
  have s: "?s \<in> set (generar_xml_eggwars (Inr mapa_duplicado))" by code_simp
  have v: "?v \<in> set (generar_xml_eggwars (Inr mapa_duplicado))" by code_simp
  have i: "filter aceptado (ids mapa_duplicado) = [''team-red-generator-iron-1'', ''team-red-generator-iron-1'']"
    by code_simp
  note t = C4_traceability [of mapa_duplicado]
  from t have a: "map full_id (buscar_regiones mapa_duplicado) = filter aceptado (ids mapa_duplicado)"
    by blast
  from t s have b: "\<exists>!g. g \<in> set (buscar_regiones mapa_duplicado) \<and> spawn_region ?s = full_id g"
    by fastforce
  from t v have c: "\<exists>!g. g \<in> set (buscar_regiones mapa_duplicado) \<and>
                filter_id ?v = full_id g @ ''-lv'' @ str_int (valor ?v)"
    by fastforce
  from a i s b v c show ?thesis by simp
qed

text \<open>
  C4 as stated fails: two elements with the same matching \<^verbatim>\<open>id\<close> give two regions with the
  same source identifier.
\<close>

theorem C4_counterexample:
  "map full_id (buscar_regiones mapa_duplicado) =
     [''team-red-generator-iron-1'', ''team-red-generator-iron-1''] \<and>
   \<not> distinct (map full_id (buscar_regiones mapa_duplicado))"
  by code_simp

text \<open>
  C5. When parsing fails with message \<open>e\<close>, the run prints the one error line for \<open>e\<close> and no
  declaration. In every run, whatever was printed before an exception stays, the error line
  of the exception is printed once, last, and nothing follows; a run without exception
  prints no error line.
\<close>

theorem C5_errors:
  "generar_xml_eggwars (Inl e) = [ErrorLine e] \<and>
   stdout_text (generar_xml_eggwars (Inl e)) = ''Error procesando el archivo: '' @ e @ [NL] \<and>
   filter es_declaracion (generar_xml_eggwars (Inl e)) = [] \<and>
   generar_xml_eggwars parsed =
     fst (procesar parsed) @ (case snd (procesar parsed) of None \<Rightarrow> [] | Some x \<Rightarrow> [ErrorLine x]) \<and>
   (\<forall>l \<in> set (fst (procesar parsed)). \<not> es_error l)"
proof -
  have "generar_xml_eggwars (Inl e) = [ErrorLine e]"
    by (simp add: generar_xml_eggwars_def procesar_def lanzar_def)
  moreover have "generar_xml_eggwars parsed =
     fst (procesar parsed) @ (case snd (procesar parsed) of None \<Rightarrow> [] | Some x \<Rightarrow> [ErrorLine x])"
    by (cases "procesar parsed") (simp add: generar_xml_eggwars_def split: option.splits)
  moreover have "\<forall>l \<in> set (fst (procesar parsed)). \<not> es_error l"
    using no_error_lines by blast
  ultimately show ?thesis by (simp add: stdout_text_def render_def)
qed

theorem C5_errors_witness:
  "generar_xml_eggwars (Inl ''syntax error: line 1, column 0'') =
     [ErrorLine ''syntax error: line 1, column 0''] \<and>
   stdout_text (generar_xml_eggwars (Inl ''syntax error: line 1, column 0'')) =
     ''Error procesando el archivo: syntax error: line 1, column 0'' @ [NL] \<and>
   filter es_error (generar_xml_eggwars (Inr mapa_ejemplo)) = []"
proof -
  note t = C5_errors [of "''syntax error: line 1, column 0''" "Inr mapa_ejemplo"]
  have n: "snd (procesar (Inr mapa_ejemplo)) = None" by (simp add: procesar_eq)
  from t n have "generar_xml_eggwars (Inr mapa_ejemplo) = fst (procesar (Inr mapa_ejemplo))"
    by simp
  moreover from t have "\<forall>l \<in> set (fst (procesar (Inr mapa_ejemplo))). \<not> es_error l" by blast
  ultimately have "filter es_error (generar_xml_eggwars (Inr mapa_ejemplo)) = []"
    by (simp add: filter_empty_conv)
  moreover from t have "generar_xml_eggwars (Inl ''syntax error: line 1, column 0'') =
     [ErrorLine ''syntax error: line 1, column 0'']" by blast
  moreover from t have "stdout_text (generar_xml_eggwars (Inl ''syntax error: line 1, column 0'')) =
     ''Error procesando el archivo: '' @ ''syntax error: line 1, column 0'' @ [NL]" by blast
  ultimately show ?thesis by simp
qed



text \<open>
  C7. The spawner pass prints, for each region and each of its timing entries, the opening
  line, the item line and the closing line; the item line has amount 1 and the display name
  of the region's material, where iron is iron ingot, gold is gold ingot, and diamond and
  emerald are kept.
\<close>

theorem C7_item_payload:
  "fst (generar_spawners (generadores root)) =
     concat (map (\<lambda>g. concat (map (\<lambda>nd.
        [SpawnerOpen (full_id g) (delay nd) (full_id g @ ''-lv'' @ str_int (lvl nd)),
         Item (item_material (material g)),
         SpawnerClose]) (config_de g))) (generadores root)) \<and>
   render (Item (item_material m)) =
     TAB # ''    <item amount='' @ [CHR 0x22] @ ''1'' @ [CHR 0x22] @ '' material='' @ [CHR 0x22] @
       item_material m @ [CHR 0x22] @ ''/>'' \<and>
   item_material ''iron'' = ''iron ingot'' \<and>
   item_material ''gold'' = ''gold ingot'' \<and>
   item_material ''diamond'' = ''diamond'' \<and>
   item_material ''emerald'' = ''emerald''"
proof -
  have "generar_spawners (generadores root) =
          (concat (map (\<lambda>g. concat (map (spawner_de g) (config_de g))) (generadores root)), None)"
    using generadores_configured by (rule generar_spawners_eq)
  then show ?thesis
    by (simp add: spawner_de_def [abs_def] render_def item_material_def)
qed

theorem C7_item_payload_witness:
  "filter es_item (fst (generar_spawners (generadores mapa_ejemplo))) =
     [Item ''diamond'', Item ''diamond'', Item ''diamond'',
      Item ''iron ingot'', Item ''iron ingot'', Item ''iron ingot'', Item ''iron ingot''] \<and>
   render (Item ''gold ingot'') =
     TAB # ''    <item amount='' @ [CHR 0x22] @ ''1'' @ [CHR 0x22] @ '' material='' @ [CHR 0x22] @
       ''gold ingot'' @ [CHR 0x22] @ ''/>''"
proof -
  have g: "generadores mapa_ejemplo =
     [\<lparr>full_id = ''team-blue-generator-diamond-2'', color = ''blue'', material = ''diamond'',
        num = ''2'', team_id = ''team-blue''\<rparr>,
      \<lparr>full_id = ''team-red-generator-iron-1'', color = ''red'', material = ''iron'',
        num = ''1'', team_id = ''team-red''\<rparr>]"
    by code_simp
  note t = C7_item_payload [of mapa_ejemplo "''gold''"]
  from t have e: "fst (generar_spawners (generadores mapa_ejemplo)) =
     concat (map (\<lambda>g. concat (map (\<lambda>nd.
        [SpawnerOpen (full_id g) (delay nd) (full_id g @ ''-lv'' @ str_int (lvl nd)),
         Item (item_material (material g)),
         SpawnerClose]) (config_de g))) (generadores mapa_ejemplo))"
    by (rule conjunct1)
  from t have i: "item_material ''gold'' = ''gold ingot''"
    and d: "item_material ''diamond'' = ''diamond''"
    and f: "item_material ''iron'' = ''iron ingot''"
    and r: "render (Item (item_material ''gold'')) =
     TAB # ''    <item amount='' @ [CHR 0x22] @ ''1'' @ [CHR 0x22] @ '' material='' @ [CHR 0x22] @
       item_material ''gold'' @ [CHR 0x22] @ ''/>''"
    by blast+
  have "filter es_item (fst (generar_spawners (generadores mapa_ejemplo))) =
     [Item ''diamond'', Item ''diamond'', Item ''diamond'',
      Item ''iron ingot'', Item ''iron ingot'', Item ''iron ingot'', Item ''iron ingot'']"
    by (subst e) (simp add: g config_de_def CONFIG_GENERADORES_def d f)
  then show ?thesis using r [unfolded i] by (rule conjI)
qed

text \<open>
  C8. The list used for emission is the list found, sorted by the key (team, material,
  number as a string): it is ordered by the key, a permutation of the list found, keeps
  regions of equal key in their original order, and sorting it again changes nothing.
\<close>

theorem C8_sorting:
  "sorted (map clave (ordenar xs)) \<and>
   mset (ordenar xs) = mset xs \<and>
   (\<forall>k. filter (\<lambda>x. clave x = k) (ordenar xs) = filter (\<lambda>x. clave x = k) xs) \<and>
   ordenar (ordenar xs) = ordenar xs \<and>
   clave x = (color x, material x, num x) \<and>
   fst (procesar (Inr root)) =
     (if buscar_regiones root = [] then [SinRegiones]
      else [Texto [NL], Texto [], Texto []] @
           fst (generar_filtros (ordenar (buscar_regiones root))) @
           [Texto [NL, NL], Texto []] @
           fst (generar_spawners (ordenar (buscar_regiones root))))"
proof -
  have s: "sorted (map clave (ordenar xs))" by (simp add: ordenar_def)
  have "ordenar (ordenar xs) = ordenar xs"
    using s unfolding ordenar_def by (rule sort_key_id_if_sorted)
  moreover have "\<forall>k. filter (\<lambda>x. clave x = k) (ordenar xs) = filter (\<lambda>x. clave x = k) xs"
    by (simp add: ordenar_def sort_key_stable)
  ultimately show ?thesis using s by (simp add: clave_def procesar_eq)
qed

theorem C8_sorting_witness:
  "ordenar regiones_ejemplo = [regiones_ejemplo ! 2, regiones_ejemplo ! 1, regiones_ejemplo ! 0] \<and>
   sorted (map clave (ordenar regiones_ejemplo)) \<and>
   mset (ordenar regiones_ejemplo) = mset regiones_ejemplo \<and>
   ordenar (ordenar regiones_ejemplo) = ordenar regiones_ejemplo \<and>
   clave (regiones_ejemplo ! 1) = (''red'', ''iron'', ''10'') \<and>
   map full_id (ordenar (buscar_regiones mapa_ejemplo)) =
     [''team-blue-generator-diamond-2'', ''team-red-generator-iron-1'']"
proof -
  have a: "ordenar regiones_ejemplo = [regiones_ejemplo ! 2, regiones_ejemplo ! 1, regiones_ejemplo ! 0]"
    by code_simp
  have b: "map full_id (ordenar (buscar_regiones mapa_ejemplo)) =
     [''team-blue-generator-diamond-2'', ''team-red-generator-iron-1'']"
    by code_simp
  have c: "clave (regiones_ejemplo ! 1) = (''red'', ''iron'', ''10'')"
    by (simp add: regiones_ejemplo_def clave_def)
  from C8_sorting [of regiones_ejemplo "regiones_ejemplo ! 1" mapa_ejemplo] a b c
  show ?thesis by blast
qed

text \<open>
  C9. Every variable line of a run belongs to an extracted region and its team attribute is
  \<^verbatim>\<open>team-\<close> followed by the team captured from the region's identifier; nothing else in
  the document is consulted.
\<close>

theorem C9_team_attribute:
  "\<forall>l \<in> set (generar_xml_eggwars (Inr root)). es_variable l \<longrightarrow>
     (\<exists>g \<in> set (buscar_regiones root).
        filter_id l = full_id g @ ''-lv'' @ str_int (valor l) \<and>
        patron_match (full_id g) = Some (color g, material g, num g) \<and>
        team l = ''team-'' @ color g)"
proof (intro ballI impI)
  fix l assume "l \<in> set (generar_xml_eggwars (Inr root))" "es_variable l"
  from variable_lines [OF this] obtain g where g: "g \<in> set (buscar_regiones root)"
    "l = variable_de g (valor l)" by blast
  have "filter_id l = full_id g @ ''-lv'' @ str_int (valor l)" "team l = team_id g"
    by (subst g(2), simp add: variable_de_def)+
  with buscar_regiones_fields(1,3) [OF g(1)] g(1)
  show "\<exists>g \<in> set (buscar_regiones root).
        filter_id l = full_id g @ ''-lv'' @ str_int (valor l) \<and>
        patron_match (full_id g) = Some (color g, material g, num g) \<and>
        team l = ''team-'' @ color g"
    by (intro bexI [of _ g]) simp_all
qed

theorem C9_team_attribute_witness:
  "Variable ''team-red-generator-iron-1-lv2'' ''team_generator_iron_1'' ''team-red'' 2
     \<in> set (generar_xml_eggwars (Inr mapa_ejemplo)) \<and>
   (\<exists>g \<in> set (buscar_regiones mapa_ejemplo).
      ''team-red-generator-iron-1-lv2'' = full_id g @ ''-lv'' @ str_int 2 \<and>
      patron_match (full_id g) = Some (color g, material g, num g) \<and>
      ''team-red'' = ''team-'' @ color g) \<and>
   ''team-red'' \<notin> set (ids mapa_ejemplo)"
proof -
  let ?l = "Variable ''team-red-generator-iron-1-lv2'' ''team_generator_iron_1'' ''team-red'' 2"
  have m: "?l \<in> set (generar_xml_eggwars (Inr mapa_ejemplo))"
    by code_simp
  have i: "''team-red'' \<notin> set (ids mapa_ejemplo)"
    by code_simp
  from C9_team_attribute [of mapa_ejemplo] m
  have "\<exists>g \<in> set (buscar_regiones mapa_ejemplo).
        filter_id ?l = full_id g @ ''-lv'' @ str_int (valor ?l) \<and>
        patron_match (full_id g) = Some (color g, material g, num g) \<and>
        team ?l = ''team-'' @ color g"
    by fastforce
  with m i show ?thesis by simp
qed

text \<open>
  C10 (as amended). When the pattern matches, the team capture is the longest that any
  reading of the identifier as \<^verbatim>\<open>team-c-generator-m-n\<close> allows; hence the material capture
  holds the separator \<^verbatim>\<open>-generator-\<close> at most at its very end, never followed by another
  character of the material, while the team capture may hold it.
\<close>

theorem C10_greedy_team:
  assumes "patron_match s = Some (c, m, n)"
  shows "forma s c m n \<and>
         (\<forall>c' m' n'. forma s c' m' n' \<longrightarrow> length c' \<le> length c) \<and>
         (\<forall>u v. m = u @ ''-generator-'' @ v \<longrightarrow> v = [])"
  using assms patron_match_forma patron_match_longest material_separator_last by blast

theorem C10_greedy_team_witness:
  "patron_match ''team-a-generator-b-generator-iron-12'' = Some (''a-generator-b'', ''iron'', ''12'') \<and>
   forma ''team-a-generator-b-generator-iron-12'' ''a-generator-b'' ''iron'' ''12'' \<and>
   forma ''team-a-generator-b-generator-iron-12'' ''a'' ''b-generator-iron'' ''12'' \<and>
   length ''a'' \<le> length ''a-generator-b'' \<and>
   \<not> (\<exists>u v. v \<noteq> [] \<and> ''iron'' = u @ ''-generator-'' @ v)"
proof -
  have h: "patron_match ''team-a-generator-b-generator-iron-12'' = Some (''a-generator-b'', ''iron'', ''12'')"
    by code_simp
  have f: "forma ''team-a-generator-b-generator-iron-12'' ''a'' ''b-generator-iron'' ''12''"
    by (simp add: forma_def dot_def is_digit_def)
  from C10_greedy_team [OF h]
  have a: "forma ''team-a-generator-b-generator-iron-12'' ''a-generator-b'' ''iron'' ''12''"
    and b: "\<forall>c' m' n'. forma ''team-a-generator-b-generator-iron-12'' c' m' n' \<longrightarrow>
              length c' \<le> length ''a-generator-b''"
    and c: "\<forall>u v. ''iron'' = u @ ''-generator-'' @ v \<longrightarrow> v = []"
    by blast+
  from b f have "length ''a'' \<le> length ''a-generator-b''" by blast
  moreover from c have "\<not> (\<exists>u v. v \<noteq> [] \<and> ''iron'' = u @ ''-generator-'' @ v)" by blast
  ultimately show ?thesis using h a f by blast
qed

text \<open>
  C10 as stated fails: the team capture does not reach the last separator of this
  identifier, and the material capture contains the separator.
\<close>

theorem C10_counterexample:
  "patron_match ''team-a-generator-x-generator--1'' = Some (''a'', ''x-generator-'', ''1'') \<and>
   ''x-generator-'' = ''x'' @ ''-generator-'' \<and>
   ''team-a-generator-x-generator--1'' = ''team-'' @ ''a-generator-x'' @ ''-generator-'' @ ''-1''"
  by code_simp

end
